theory Spec2Isabelle
  imports Complex_Main "HOL-Library.Sublist"
begin

section \<open>The moving-average signal job (run.py)\<close>

text \<open>
  The job reads a YAML configuration and a CSV table, computes a rolling mean of the
  \<open>close\<close> column, derives a 0/1 signal per row, and writes one JSON record.

  Conventions of the embedding:
  \<^item> a float64 is an exact rational or NaN (type \<open>f64\<close>); rounding and infinities are
    outside the model;
  \<^item> an exception is a value of type \<open>exn\<close>, and a function that can raise returns
    \<open>exn + 'a\<close> with \<open>Inl\<close> the exception;
  \<^item> what the job asks of its surroundings (does a path exist, what do
    \<open>yaml.safe_load\<close>, \<open>pd.read_csv\<close> and \<open>np.random.seed\<close> answer, which strings
    numpy converts to a float, what does the clock read) is a field of the record
    \<open>world\<close>;
  \<^item> the output path is writable, so that writing the record does not raise; log
    lines are not part of the model.
\<close>

subsection \<open>Values\<close>

type_synonym path = string

datatype exn =
    FileNotFoundError string
  | ValueError string
  | TypeError string
  | KeyError string
  | LibraryError string

text \<open>\<open>str(e)\<close>: the message of an exception; a \<open>KeyError\<close> prints its key quoted.\<close>

fun str_exn :: "exn \<Rightarrow> string" where
  "str_exn (FileNotFoundError m) = m"
| "str_exn (ValueError m) = m"
| "str_exn (TypeError m) = m"
| "str_exn (KeyError k) = [CHR 0x27] @ k @ [CHR 0x27]"
| "str_exn (LibraryError m) = m"

datatype f64 = NaN | Val rat

text \<open>What \<open>yaml.safe_load\<close> can return: scalars, sequences and mappings.\<close>

datatype yaml =
    YNull
  | YBool bool
  | YInt int
  | YFloat rat
  | YStr string
  | YSeq "yaml list"
  | YMap "(yaml \<times> yaml) list"

text \<open>
  A column of a data frame: numbers (an int64 column is taken as converted to float64
  already), or text cells (dtype object).
\<close>

datatype column = Numeric "f64 list" | Object "string list"

text \<open>
  A data frame: the length of its index and its named columns. \<open>pd.read_csv\<close> builds
  frames whose columns all have the length of the index (\<open>wf_frame\<close>).
\<close>

record frame =
  nrows :: nat
  cols :: "(string \<times> column) list"

fun column_len :: "column \<Rightarrow> nat" where
  "column_len (Numeric xs) = length xs"
| "column_len (Object ss) = length ss"

definition wf_frame :: "frame \<Rightarrow> bool" where
  "wf_frame df = list_all (\<lambda>(name, c). column_len c = nrows df) (cols df)"

record world =
  path_exists :: "path \<Rightarrow> bool"
  yaml_safe_load :: "path \<Rightarrow> exn + yaml"
  pd_read_csv :: "path \<Rightarrow> exn + frame"
  np_random_seed :: "yaml \<Rightarrow> exn option"
  str_to_float64 :: "string \<Rightarrow> f64 option"
  time_start :: rat
  time_end :: rat

record args =
  arg_input :: path
  arg_config :: path
  arg_output :: path
  arg_log_file :: path

subsection \<open>Python operators on a loaded configuration\<close>

text \<open>
  \<open>key in config\<close>: membership of the key for a dict, of an element for a list, a
  substring test for a string, and a \<open>TypeError\<close> for the other scalars.
\<close>

fun py_in :: "string \<Rightarrow> yaml \<Rightarrow> exn + bool" where
  "py_in key (YMap kvs) = Inr (YStr key \<in> set (map fst kvs))"
| "py_in key (YSeq xs) = Inr (YStr key \<in> set xs)"
| "py_in key (YStr s) = Inr (sublist key s)"
| "py_in key YNull = Inl (TypeError ''argument of type 'NoneType' is not iterable'')"
| "py_in key (YBool b) = Inl (TypeError ''argument of type 'bool' is not iterable'')"
| "py_in key (YInt i) = Inl (TypeError ''argument of type 'int' is not iterable'')"
| "py_in key (YFloat r) = Inl (TypeError ''argument of type 'float' is not iterable'')"

text \<open>\<open>config[key]\<close> with a string key.\<close>

fun py_getitem :: "yaml \<Rightarrow> string \<Rightarrow> exn + yaml" where
  "py_getitem (YMap kvs) key =
     (case map_of kvs (YStr key) of None \<Rightarrow> Inl (KeyError key) | Some v \<Rightarrow> Inr v)"
| "py_getitem (YSeq xs) key =
     Inl (TypeError ''list indices must be integers or slices, not str'')"
| "py_getitem (YStr s) key =
     Inl (TypeError (''string indices must be integers, not 'str'' @ [CHR 0x27]))"
| "py_getitem YNull key = Inl (TypeError '''NoneType' object is not subscriptable'')"
| "py_getitem (YBool b) key = Inl (TypeError '''bool' object is not subscriptable'')"
| "py_getitem (YInt i) key = Inl (TypeError '''int' object is not subscriptable'')"
| "py_getitem (YFloat r) key = Inl (TypeError '''float' object is not subscriptable'')"

text \<open>
  The keys of a configuration document, as the specification speaks of them: those of a
  mapping; a document that is not a mapping has none.
\<close>

fun yaml_keys :: "yaml \<Rightarrow> yaml list" where
  "yaml_keys (YMap kvs) = map fst kvs"
| "yaml_keys y = []"

subsection \<open>load_config\<close>

definition required_keys :: "string list" where
  "required_keys = [''seed'', ''window'', ''version'']"

text \<open>The loop over the required keys; it raises at the first key that is missing.\<close>

fun check_required_keys :: "string list \<Rightarrow> yaml \<Rightarrow> exn + unit" where
  "check_required_keys [] config = Inr ()"
| "check_required_keys (key # keys) config =
     (case py_in key config of
        Inl e \<Rightarrow> Inl e
      | Inr present \<Rightarrow>
          if \<not> present then Inl (ValueError (''Missing required config key: '' @ key))
          else check_required_keys keys config)"

definition load_config :: "world \<Rightarrow> path \<Rightarrow> exn + yaml" where
  "load_config w config_path =
     (if \<not> path_exists w config_path
      then Inl (FileNotFoundError (''Config file not found: '' @ config_path))
      else case yaml_safe_load w config_path of
             Inl e \<Rightarrow> Inl e
           | Inr config \<Rightarrow>
               (case check_required_keys required_keys config of
                  Inl e \<Rightarrow> Inl e
                | Inr u \<Rightarrow> Inr config))"

subsection \<open>load_data\<close>

text \<open>\<open>df.empty\<close>: some axis of the frame has length 0.\<close>

definition df_empty :: "frame \<Rightarrow> bool" where
  "df_empty df = (nrows df = 0 \<or> cols df = [])"

definition load_data :: "world \<Rightarrow> path \<Rightarrow> exn + frame" where
  "load_data w input_path =
     (if \<not> path_exists w input_path
      then Inl (FileNotFoundError (''Input file not found: '' @ input_path))
      else case pd_read_csv w input_path of
             Inl e \<Rightarrow> Inl e
           | Inr df \<Rightarrow>
               if df_empty df then Inl (ValueError ''Input CSV is empty'')
               else if ''close'' \<notin> set (map fst (cols df))
               then Inl (ValueError ''Required 'close' column missing'')
               else Inr df)"

subsection \<open>The pandas operations of process_data\<close>

text \<open>\<open>df[name]\<close>.\<close>

definition df_getitem :: "frame \<Rightarrow> string \<Rightarrow> exn + column" where
  "df_getitem df name =
     (case map_of (cols df) name of None \<Rightarrow> Inl (KeyError name) | Some c \<Rightarrow> Inr c)"

text \<open>
  \<open>Series.rolling(window=w).mean()\<close> with the defaults of pandas: the window of row
  \<open>i\<close> holds the rows \<open>i - w + 1\<close> to \<open>i\<close> that exist, \<open>min_periods\<close> is \<open>w\<close>, and the
  result is the mean of the observations of the window that are not NaN when there are
  at least \<open>min_periods\<close> (and at least one) of them, NaN otherwise.
\<close>

definition window_at :: "nat \<Rightarrow> nat \<Rightarrow> f64 list \<Rightarrow> f64 list" where
  "window_at w i xs = drop (Suc i - w) (take (Suc i) xs)"

fun observations :: "f64 list \<Rightarrow> rat list" where
  "observations [] = []"
| "observations (NaN # xs) = observations xs"
| "observations (Val v # xs) = v # observations xs"

definition window_mean :: "nat \<Rightarrow> f64 list \<Rightarrow> f64" where
  "window_mean min_periods ws =
     (let obs = observations ws; nobs = length obs
      in if min_periods \<le> nobs \<and> 0 < nobs then Val (sum_list obs / of_nat nobs) else NaN)"

definition rolling_mean :: "nat \<Rightarrow> f64 list \<Rightarrow> f64 list" where
  "rolling_mean w xs = map (\<lambda>i. window_mean w (window_at w i xs)) [0..<length xs]"

text \<open>
  The window is checked when \<open>rolling\<close> is called (an integer, 0 or greater; a Python
  bool is refused). \<open>mean\<close> converts the column to float64 first: a column of strings
  passes when every string converts (the empty column does), and raises otherwise.
\<close>

definition series_rolling_mean :: "world \<Rightarrow> yaml \<Rightarrow> column \<Rightarrow> exn + f64 list" where
  "series_rolling_mean w window close =
     (case window of
        YInt k \<Rightarrow>
          if k < 0 then Inl (ValueError ''window must be an integer 0 or greater'')
          else (case close of
                  Numeric xs \<Rightarrow> Inr (rolling_mean (nat k) xs)
                | Object ss \<Rightarrow>
                    (case those (map (str_to_float64 w) ss) of
                       None \<Rightarrow> Inl (LibraryError ''No numeric types to aggregate'')
                     | Some xs \<Rightarrow> Inr (rolling_mean (nat k) xs)))
      | _ \<Rightarrow> Inl (ValueError ''window must be an integer 0 or greater''))"

text \<open>
  \<open>x > y\<close> on floats: false when either side is NaN. On a column of strings the
  comparison with a float raises as soon as there is a row to compare.
\<close>

fun f64_gt :: "f64 \<Rightarrow> f64 \<Rightarrow> bool" where
  "f64_gt (Val a) (Val b) = (b < a)"
| "f64_gt x y = False"

fun series_gt :: "column \<Rightarrow> f64 list \<Rightarrow> exn + bool list" where
  "series_gt (Numeric xs) ys = Inr (map (\<lambda>(x, y). f64_gt x y) (zip xs ys))"
| "series_gt (Object ss) ys =
     (if ss = [] then Inr []
      else Inl (TypeError ([CHR 0x27, CHR ''>'', CHR 0x27]
                  @ '' not supported between instances of 'str' and 'float'' @ [CHR 0x27])))"

definition astype_int :: "bool list \<Rightarrow> int list" where
  "astype_int bs = map (\<lambda>b. if b then 1 else 0) bs"

text \<open>\<open>Series.mean()\<close> of an integer series: NaN for the empty series.\<close>

definition series_mean :: "int list \<Rightarrow> f64" where
  "series_mean s = (if s = [] then NaN else Val (of_int (sum_list s) / of_nat (length s)))"

subsection \<open>process_data\<close>

definition process_data :: "world \<Rightarrow> frame \<Rightarrow> yaml \<Rightarrow> yaml \<Rightarrow> exn + (nat \<times> f64 \<times> int list)" where
  "process_data w df seed window =
     (case np_random_seed w seed of
        Some e \<Rightarrow> Inl e
      | None \<Rightarrow>
     (case df_getitem df ''close'' of
        Inl e \<Rightarrow> Inl e
      | Inr close \<Rightarrow>
     (case series_rolling_mean w window close of
        Inl e \<Rightarrow> Inl e
      | Inr rolling \<Rightarrow>
     (case series_gt close rolling of
        Inl e \<Rightarrow> Inl e
      | Inr is_above \<Rightarrow>
          let signals = astype_int is_above;
              rows_processed = nrows df;
              signal_rate = series_mean signals
          in Inr (rows_processed, signal_rate, signals)))))"

subsection \<open>main\<close>

datatype pyval = PyYaml yaml | PyInt int | PyFloat f64 | PyStr string

type_synonym record_dict = "(string \<times> pyval) list"

text \<open>\<open>int(x)\<close> on a float truncates towards zero.\<close>

definition py_int :: "rat \<Rightarrow> int" where
  "py_int r = (if 0 \<le> r then \<lfloor>r\<rfloor> else \<lceil>r\<rceil>)"

text \<open>
  What a run leaves behind: the documents written (path and content, in order), the
  documents printed on standard output, and the exit code of the process.
\<close>

record outcome =
  written :: "(path \<times> record_dict) list"
  printed :: "record_dict list"
  exit_code :: int

text \<open>The body of the \<open>try\<close> block, up to the dictionary \<open>metrics\<close>.\<close>

definition main_try :: "world \<Rightarrow> args \<Rightarrow> exn + record_dict" where
  "main_try w a =
     (case load_config w (arg_config a) of
        Inl e \<Rightarrow> Inl e
      | Inr config \<Rightarrow>
     (case py_getitem config ''seed'' of
        Inl e \<Rightarrow> Inl e
      | Inr seed \<Rightarrow>
     (case py_getitem config ''window'' of
        Inl e \<Rightarrow> Inl e
      | Inr window \<Rightarrow>
     (case py_getitem config ''version'' of
        Inl e \<Rightarrow> Inl e
      | Inr version \<Rightarrow>
     (case np_random_seed w seed of
        Some e \<Rightarrow> Inl e
      | None \<Rightarrow>
     (case load_data w (arg_input a) of
        Inl e \<Rightarrow> Inl e
      | Inr df \<Rightarrow>
     (case process_data w df seed window of
        Inl e \<Rightarrow> Inl e
      | Inr (rows_processed, signal_rate, signals) \<Rightarrow>
          let latency_ms = py_int ((time_end w - time_start w) * 1000)
          in Inr [(''version'', PyYaml version),
                  (''rows_processed'', PyInt (int rows_processed)),
                  (''metric'', PyStr ''signal_rate''),
                  (''value'', PyFloat signal_rate),
                  (''latency_ms'', PyInt latency_ms),
                  (''seed'', PyYaml seed),
                  (''status'', PyStr ''success'')])))))))"

text \<open>The \<open>except\<close> block: the error record, and \<open>sys.exit(1)\<close>.\<close>

definition error_metrics :: "exn \<Rightarrow> record_dict" where
  "error_metrics e =
     [(''version'', PyStr ''v1''),
      (''status'', PyStr ''error''),
      (''error_message'', PyStr (str_exn e))]"

definition main :: "world \<Rightarrow> args \<Rightarrow> outcome" where
  "main w a =
     (case main_try w a of
        Inr metrics \<Rightarrow>
          \<lparr>written = [(arg_output a, metrics)], printed = [metrics], exit_code = 0\<rparr>
      | Inl e \<Rightarrow>
          \<lparr>written = [(arg_output a, error_metrics e)], printed = [error_metrics e],
           exit_code = 1\<rparr>)"

subsection \<open>The scenario of the specification\<close>

text \<open>
  The run the specification works out by hand: seed 42, window 3, version v1 and the
  closing prices 1, 2, 3, 2, 5. Only the two input files exist.
\<close>

definition scenario_config :: yaml where
  "scenario_config =
     YMap [(YStr ''seed'', YInt 42), (YStr ''window'', YInt 3), (YStr ''version'', YStr ''v1'')]"

definition scenario_frame :: frame where
  "scenario_frame = \<lparr>nrows = 5, cols = [(''close'', Numeric [Val 1, Val 2, Val 3, Val 2, Val 5])]\<rparr>"

definition scenario_world :: world where
  "scenario_world =
     \<lparr>path_exists = (\<lambda>p. p = ''config.yaml'' \<or> p = ''data.csv''),
      yaml_safe_load = (\<lambda>p. Inr scenario_config),
      pd_read_csv = (\<lambda>p. Inr scenario_frame),
      np_random_seed = (\<lambda>s. None),
      str_to_float64 = (\<lambda>s. None),
      time_start = 0,
      time_end = 1 / 4\<rparr>"

definition scenario_args :: args where
  "scenario_args =
     \<lparr>arg_input = ''data.csv'', arg_config = ''config.yaml'',
      arg_output = ''metrics.json'', arg_log_file = ''run.log''\<rparr>"

text \<open>
  Two more configuration documents that parse: an empty file, which \<open>yaml.safe_load\<close>
  reads as \<open>None\<close>, and a sequence of the three names.
\<close>

definition empty_document_world :: world where
  "empty_document_world = scenario_world\<lparr>yaml_safe_load := (\<lambda>p. Inr YNull)\<rparr>"

definition names_list_world :: world where
  "names_list_world =
     scenario_world\<lparr>yaml_safe_load :=
       (\<lambda>p. Inr (YSeq [YStr ''seed'', YStr ''window'', YStr ''version'']))\<rparr>"

section \<open>Properties of the rolling mean and of the signal\<close>

lemma length_rolling_mean: "length (rolling_mean w xs) = length xs"
  by (simp add: rolling_mean_def)

lemma nth_rolling_mean:
  "i < length xs \<Longrightarrow> rolling_mean w xs ! i = window_mean w (window_at w i xs)"
  by (simp add: rolling_mean_def)

lemma length_window_at:
  "i < length xs \<Longrightarrow> length (window_at w i xs) = min w (Suc i)"
  by (auto simp: window_at_def)

lemma window_at_rows:
  "i < length xs \<Longrightarrow> window_at w i xs = map ((!) xs) [Suc i - w..<Suc i]"
proof -
  have "drop a (take b xs) = map ((!) xs) [a..<b]" if "b \<le> length xs" for a b
  proof (intro nth_equalityI)
    show "length (drop a (take b xs)) = length (map ((!) xs) [a..<b])"
      using that by simp
    fix j assume "j < length (drop a (take b xs))"
    then have "a + j < b" using that by simp
    then show "drop a (take b xs) ! j = map ((!) xs) [a..<b] ! j"
      using that by (simp del: upt_Suc)
  qed
  then show "i < length xs \<Longrightarrow> window_at w i xs = map ((!) xs) [Suc i - w..<Suc i]"
    by (simp add: window_at_def del: upt_Suc)
qed

lemma length_observations: "length (observations ws) \<le> length ws"
  by (induction ws rule: observations.induct) auto

lemma window_mean_warmup: "length ws < w \<Longrightarrow> window_mean w ws = NaN"
  using length_observations [of ws] by (simp add: window_mean_def Let_def)

lemma rolling_mean_warmup:
  "i < length xs \<Longrightarrow> Suc i < w \<Longrightarrow> rolling_mean w xs ! i = NaN"
  by (simp add: nth_rolling_mean window_mean_warmup length_window_at)

lemma process_data_numeric:
  assumes "np_random_seed wd seed = None"
    and "df_getitem df ''close'' = Inr (Numeric xs)"
    and "0 \<le> k"
  shows "process_data wd df seed (YInt k) =
           Inr (nrows df,
                series_mean (astype_int (map (\<lambda>(x, y). f64_gt x y) (zip xs (rolling_mean (nat k) xs)))),
                astype_int (map (\<lambda>(x, y). f64_gt x y) (zip xs (rolling_mean (nat k) xs))))"
  using assms by (simp add: process_data_def series_rolling_mean_def Let_def)

lemma nth_signals:
  "i < length xs \<Longrightarrow>
     astype_int (map (\<lambda>(x, y). f64_gt x y) (zip xs (rolling_mean w xs))) ! i =
       (if f64_gt (xs ! i) (rolling_mean w xs ! i) then 1 else 0)"
  by (simp add: astype_int_def length_rolling_mean)

lemma length_signals:
  "length (astype_int (map (\<lambda>(x, y). f64_gt x y) (zip xs (rolling_mean w xs)))) = length xs"
  by (simp add: astype_int_def length_rolling_mean)

lemma f64_gt_iff: "f64_gt x y \<longleftrightarrow> (\<exists>c m. x = Val c \<and> y = Val m \<and> m < c)"
  by (cases x; cases y) auto

lemma astype_int_binary: "set (astype_int bs) \<subseteq> {0, 1}"
  by (auto simp: astype_int_def)

lemma sum_list_binary:
  "set s \<subseteq> {0, 1::int} \<Longrightarrow> 0 \<le> sum_list s \<and> sum_list s \<le> int (length s)"
  by (induction s) auto

lemma series_mean_binary:
  assumes "set s \<subseteq> {0, 1}" and "s \<noteq> []"
  shows "\<exists>r. series_mean s = Val r \<and> r = of_int (sum_list s) / of_nat (length s)
           \<and> 0 \<le> r \<and> r \<le> 1"
proof -
  have b: "0 \<le> sum_list s" "sum_list s \<le> int (length s)"
    using sum_list_binary [OF assms(1)] by simp_all
  have pos: "(0::rat) < of_nat (length s)" using assms(2) by simp
  have "(of_int (sum_list s) :: rat) \<le> of_int (int (length s))"
    using b(2) by (simp only: of_int_le_iff)
  then have "(of_int (sum_list s) :: rat) / of_nat (length s) \<le> 1"
    using pos by (simp add: divide_le_eq_1)
  moreover have "(0::rat) \<le> of_int (sum_list s) / of_nat (length s)"
    using b(1) by simp
  ultimately show ?thesis using assms(2) by (simp add: series_mean_def)
qed

lemma wf_frame_close:
  assumes "wf_frame df" and "df_getitem df name = Inr c"
  shows "column_len c = nrows df"
proof -
  from assms(2) have "map_of (cols df) name = Some c"
    by (simp add: df_getitem_def split: option.splits)
  then have "(name, c) \<in> set (cols df)" by (rule map_of_SomeD)
  with assms(1) show ?thesis by (auto simp: wf_frame_def list_all_iff)
qed

lemma process_data_Inr:
  assumes "process_data wd df seed window = Inr (n, rate, sigs)"
  shows "\<exists>k. window = YInt k \<and> 0 \<le> k \<and> np_random_seed wd seed = None
           \<and> ((\<exists>xs. df_getitem df ''close'' = Inr (Numeric xs))
              \<or> df_getitem df ''close'' = Inr (Object []))"
proof -
  from assms obtain c where c: "df_getitem df ''close'' = Inr c"
    and s: "np_random_seed wd seed = None"
    by (auto simp: process_data_def split: option.splits sum.splits)
  from assms s c obtain r where r: "series_rolling_mean wd window c = Inr r"
    by (auto simp: process_data_def split: sum.splits)
  from assms s c r obtain b where b: "series_gt c r = Inr b"
    by (auto simp: process_data_def split: sum.splits)
  have col: "(\<exists>xs. c = Numeric xs) \<or> c = Object []"
    using b by (cases c) (auto split: if_splits)
  from r have "\<exists>k. window = YInt k \<and> 0 \<le> k"
    by (auto simp: series_rolling_mean_def split: yaml.splits if_splits)
  with s c col show ?thesis by auto
qed

lemma df_getitem_in_columns:
  "df_getitem df name = Inr c \<Longrightarrow> name \<in> set (map fst (cols df)) \<and> cols df \<noteq> []"
  by (auto simp: df_getitem_def split: option.splits dest!: map_of_SomeD intro: rev_image_eqI)

lemma rolling_mean_scenario:
  "rolling_mean 3 [Val 1, Val 2, Val 3, Val 2, Val 5] = [NaN, NaN, Val 2, Val (7 / 3), Val (10 / 3)]"
  by (simp add: rolling_mean_def window_mean_def window_at_def upt_rec)

lemma scenario_getitem:
  "df_getitem scenario_frame ''close'' = Inr (Numeric [Val 1, Val 2, Val 3, Val 2, Val 5])"
  by (simp add: scenario_frame_def df_getitem_def)

lemma scenario_seed: "np_random_seed scenario_world s = None"
  by (simp add: scenario_world_def)

lemma scenario_wf: "wf_frame scenario_frame \<and> 0 < nrows scenario_frame"
  by (simp add: scenario_frame_def wf_frame_def)

lemma rolling_mean_window_1: "rolling_mean 1 xs = xs"
proof (intro nth_equalityI)
  show "length (rolling_mean 1 xs) = length xs" by (rule length_rolling_mean)
  fix i assume "i < length (rolling_mean 1 xs)"
  then have i: "i < length xs" by (simp add: length_rolling_mean)
  then have "window_at 1 i xs = [xs ! i]"
    by (simp add: window_at_rows)
  then have "rolling_mean 1 xs ! i = window_mean 1 [xs ! i]"
    using i by (simp add: nth_rolling_mean)
  also have "\<dots> = xs ! i"
    by (cases "xs ! i") (simp_all add: window_mean_def)
  finally show "rolling_mean 1 xs ! i = xs ! i" .
qed

lemma f64_gt_irrefl: "\<not> f64_gt x x"
  by (cases x) simp_all

lemma signals_window_1:
  "astype_int (map (\<lambda>(x, y). f64_gt x y) (zip xs xs)) = replicate (length xs) 0"
  by (induction xs) (simp_all add: astype_int_def f64_gt_irrefl)

lemma main_try_Inr:
  assumes "main_try wd a = Inr metrics"
  shows "\<exists>config seed window version df rate sigs.
           load_config wd (arg_config a) = Inr config
         \<and> py_getitem config ''seed'' = Inr seed
         \<and> py_getitem config ''window'' = Inr window
         \<and> py_getitem config ''version'' = Inr version
         \<and> np_random_seed wd seed = None
         \<and> load_data wd (arg_input a) = Inr df
         \<and> process_data wd df seed window = Inr (nrows df, rate, sigs)
         \<and> metrics = [(''version'', PyYaml version),
                       (''rows_processed'', PyInt (int (nrows df))),
                       (''metric'', PyStr ''signal_rate''),
                       (''value'', PyFloat rate),
                       (''latency_ms'', PyInt (py_int ((time_end wd - time_start wd) * 1000))),
                       (''seed'', PyYaml seed),
                       (''status'', PyStr ''success'')]"
proof -
  from assms obtain config where c: "load_config wd (arg_config a) = Inr config"
    by (cases "load_config wd (arg_config a)") (simp_all add: main_try_def)
  from assms c obtain seed where s: "py_getitem config ''seed'' = Inr seed"
    by (cases "py_getitem config ''seed''") (simp_all add: main_try_def)
  from assms c s obtain window where w: "py_getitem config ''window'' = Inr window"
    by (cases "py_getitem config ''window''") (simp_all add: main_try_def)
  from assms c s w obtain version where v: "py_getitem config ''version'' = Inr version"
    by (cases "py_getitem config ''version''") (simp_all add: main_try_def)
  from assms c s w v have n: "np_random_seed wd seed = None"
    by (cases "np_random_seed wd seed") (simp_all add: main_try_def)
  from assms c s w v n obtain df where d: "load_data wd (arg_input a) = Inr df"
    by (cases "load_data wd (arg_input a)") (simp_all add: main_try_def)
  from assms c s w v n d obtain rows rate sigs
    where p: "process_data wd df seed window = Inr (rows, rate, sigs)"
    by (cases "process_data wd df seed window") (auto simp add: main_try_def)
  then have rows: "rows = nrows df"
    by (auto simp: process_data_def Let_def split: option.splits sum.splits)
  from assms c s w v n d p rows show ?thesis
    by (simp add: main_try_def)
qed

lemma load_data_Inr:
  assumes "load_data wd p = Inr df"
  shows "path_exists wd p \<and> pd_read_csv wd p = Inr df \<and> 0 < nrows df
         \<and> ''close'' \<in> set (map fst (cols df))"
  using assms
  by (auto simp: load_data_def df_empty_def split: if_splits sum.splits)

lemma scenario_main_try:
  "main_try scenario_world scenario_args =
     Inr [(''version'', PyYaml (YStr ''v1'')),
          (''rows_processed'', PyInt 5),
          (''metric'', PyStr ''signal_rate''),
          (''value'', PyFloat (Val (2 / 5))),
          (''latency_ms'', PyInt 250),
          (''seed'', PyYaml (YInt 42)),
          (''status'', PyStr ''success'')]"
proof -
  have c: "load_config scenario_world ''config.yaml'' = Inr scenario_config"
    by (simp add: load_config_def scenario_world_def scenario_config_def required_keys_def)
  have d: "load_data scenario_world ''data.csv'' = Inr scenario_frame"
    by (simp add: load_data_def scenario_world_def scenario_frame_def df_empty_def)
  have p: "process_data scenario_world scenario_frame (YInt 42) (YInt 3)
             = Inr (5, Val (2 / 5), [0, 0, 1, 0, 1])"
    using process_data_numeric [OF scenario_seed [of "YInt 42"] scenario_getitem, of 3]
    by (simp add: rolling_mean_scenario astype_int_def series_mean_def scenario_frame_def)
  have t: "py_int ((time_end scenario_world - time_start scenario_world) * 1000) = 250"
    by (simp add: py_int_def scenario_world_def)
  show ?thesis
    using c d p t scenario_seed [of "YInt 42"]
    by (simp add: main_try_def scenario_args_def scenario_config_def)
qed

lemma check_required_keys_map:
  "check_required_keys ks (YMap m) =
     (case find (\<lambda>key. YStr key \<notin> set (map fst m)) ks of
        None \<Rightarrow> Inr ()
      | Some key \<Rightarrow> Inl (ValueError (''Missing required config key: '' @ key)))"
  by (induction ks) simp_all

lemma load_config_map:
  assumes "path_exists wd p" and "yaml_safe_load wd p = Inr (YMap m)"
  shows "load_config wd p =
     (case find (\<lambda>key. YStr key \<notin> set (map fst m)) required_keys of
        None \<Rightarrow> Inr (YMap m)
      | Some key \<Rightarrow> Inl (ValueError (''Missing required config key: '' @ key)))"
  using assms by (simp add: load_config_def check_required_keys_map split: option.splits)

lemma scenario_yaml:
  "yaml_safe_load scenario_world p =
     Inr (YMap [(YStr ''seed'', YInt 42), (YStr ''window'', YInt 3),
                (YStr ''version'', YStr ''v1'')])"
  by (simp add: scenario_world_def scenario_config_def)

lemma scenario_csv: "pd_read_csv scenario_world p = Inr scenario_frame"
  by (simp add: scenario_world_def)

lemma scenario_paths:
  "path_exists scenario_world ''config.yaml''" "path_exists scenario_world ''data.csv''"
  "\<not> path_exists scenario_world ''nowhere.csv''"
  by (simp_all add: scenario_world_def)

lemma scenario_load_config:
  "load_config scenario_world ''config.yaml'' = Inr scenario_config"
  by (simp add: load_config_def scenario_world_def scenario_config_def required_keys_def)

lemma scenario_load_data:
  "load_data scenario_world ''data.csv'' = Inr scenario_frame"
  by (simp add: load_data_def scenario_world_def scenario_frame_def df_empty_def)

lemma scenario_missing_input:
  "main_try scenario_world (scenario_args\<lparr>arg_input := ''nowhere.csv''\<rparr>) =
     Inl (FileNotFoundError ''Input file not found: nowhere.csv'')"
proof -
  have d: "load_data scenario_world ''nowhere.csv'' =
             Inl (FileNotFoundError ''Input file not found: nowhere.csv'')"
    by (simp add: load_data_def scenario_world_def)
  show ?thesis
    using d scenario_load_config scenario_seed [of "YInt 42"]
    by (simp add: main_try_def scenario_args_def scenario_config_def)
qed

lemma main_try_missing_input:
  assumes "\<not> path_exists wd (arg_input a)"
  shows "\<exists>e. main_try wd a = Inl e"
proof (cases "main_try wd a")
  case (Inl e)
  then show ?thesis by blast
next
  case (Inr metrics)
  from main_try_Inr [OF Inr] obtain df where "load_data wd (arg_input a) = Inr df"
    by blast
  with assms show ?thesis by (simp add: load_data_def)
qed

lemma load_config_missing:
  "\<not> path_exists wd p \<Longrightarrow>
     load_config wd p = Inl (FileNotFoundError (''Config file not found: '' @ p))"
  by (simp add: load_config_def)

lemma load_data_missing:
  "\<not> path_exists wd p \<Longrightarrow>
     load_data wd p = Inl (FileNotFoundError (''Input file not found: '' @ p))"
  by (simp add: load_data_def)

lemma main_try_config_failed:
  "load_config wd (arg_config a) = Inl e \<Longrightarrow> main_try wd a = Inl e"
  unfolding main_try_def by (simp only: sum.case)

lemma main_failed:
  "main_try wd a = Inl e \<Longrightarrow>
     main wd a = \<lparr>written = [(arg_output a, error_metrics e)], printed = [error_metrics e],
                  exit_code = 1\<rparr>"
  unfolding main_def by (simp only: sum.case)

lemma main_try_seed_failed:
  assumes "load_config wd (arg_config a) = Inr config"
    and "py_getitem config ''seed'' = Inr seed"
    and "py_getitem config ''window'' = Inr window"
    and "py_getitem config ''version'' = Inr version"
    and "np_random_seed wd seed = Some e"
  shows "main_try wd a = Inl e"
  using assms by (simp add: main_try_def)

lemma main_try_data_failed:
  assumes "load_config wd (arg_config a) = Inr config"
    and "py_getitem config ''seed'' = Inr seed"
    and "py_getitem config ''window'' = Inr window"
    and "py_getitem config ''version'' = Inr version"
    and "np_random_seed wd seed = None"
    and "load_data wd (arg_input a) = Inl e"
  shows "main_try wd a = Inl e"
  using assms by (simp add: main_try_def)

lemma main_try_process_failed:
  assumes "load_config wd (arg_config a) = Inr config"
    and "py_getitem config ''seed'' = Inr seed"
    and "py_getitem config ''window'' = Inr window"
    and "py_getitem config ''version'' = Inr version"
    and "np_random_seed wd seed = None"
    and "load_data wd (arg_input a) = Inr df"
    and "process_data wd df seed window = Inl e"
  shows "main_try wd a = Inl e"
  using assms by (simp add: main_try_def)

text \<open>
  A document that parses to something other than a mapping: an empty file gives
  \<open>None\<close>, and the membership test of \<open>load_config\<close> raises a \<open>TypeError\<close>.
\<close>

lemma load_config_empty_document:
  assumes "path_exists wd p" and "yaml_safe_load wd p = Inr YNull"
  shows "load_config wd p = Inl (TypeError ''argument of type 'NoneType' is not iterable'')"
  using assms by (simp add: load_config_def required_keys_def)

lemma main_printed_failed:
  assumes "main_try wd a = Inl e"
  shows "printed (main wd a) =
           [[(''version'', PyStr ''v1''), (''status'', PyStr ''error''),
             (''error_message'', PyStr (str_exn e))]]"
  unfolding main_failed [OF assms] error_metrics_def by simp

lemma load_config_missing_key:
  assumes "path_exists wd p" and "yaml_safe_load wd p = Inr (YMap m)"
    and "find (\<lambda>key. YStr key \<notin> set (map fst m)) [''seed'', ''window'', ''version''] = Some key"
  shows "load_config wd p = Inl (ValueError (''Missing required config key: '' @ key))"
  using assms(3) unfolding load_config_map [OF assms(1,2)] required_keys_def by simp

lemma load_data_empty:
  assumes "path_exists wd p" and "pd_read_csv wd p = Inr df"
    and "nrows df = 0 \<or> cols df = []"
  shows "load_data wd p = Inl (ValueError ''Input CSV is empty'')"
  using assms by (simp add: load_data_def df_empty_def)

lemma load_data_no_close:
  assumes "path_exists wd p" and "pd_read_csv wd p = Inr df"
    and "0 < nrows df" and "cols df \<noteq> []" and "''close'' \<notin> set (map fst (cols df))"
  shows "load_data wd p = Inl (ValueError ''Required 'close' column missing'')"
  using assms by (simp add: load_data_def df_empty_def)

section \<open>The claims\<close>

text \<open>
  C1. With seed 42, window 3 and version v1, on a table of five rows whose \<open>close\<close>
  column is 1, 2, 3, 2, 5, \<open>process_data\<close> returns 5 rows processed, the signal rate
  2/5 and the signals 0, 0, 1, 0, 1, and the run writes them in a success record.
\<close>

theorem scenario_close_1_2_3_2_5:
  assumes "path_exists wd (arg_config a)" and "path_exists wd (arg_input a)"
    and "yaml_safe_load wd (arg_config a) =
           Inr (YMap [(YStr ''seed'', YInt 42), (YStr ''window'', YInt 3),
                      (YStr ''version'', YStr ''v1'')])"
    and "pd_read_csv wd (arg_input a) = Inr df"
    and "nrows df = 5"
    and "df_getitem df ''close'' = Inr (Numeric [Val 1, Val 2, Val 3, Val 2, Val 5])"
    and "np_random_seed wd (YInt 42) = None"
  shows "process_data wd df (YInt 42) (YInt 3) = Inr (5, Val (2 / 5), [0, 0, 1, 0, 1])
       \<and> main_try wd a =
           Inr [(''version'', PyYaml (YStr ''v1'')),
                (''rows_processed'', PyInt 5),
                (''metric'', PyStr ''signal_rate''),
                (''value'', PyFloat (Val (2 / 5))),
                (''latency_ms'', PyInt (py_int ((time_end wd - time_start wd) * 1000))),
                (''seed'', PyYaml (YInt 42)),
                (''status'', PyStr ''success'')]"
proof -
  have p: "process_data wd df (YInt 42) (YInt 3) = Inr (5, Val (2 / 5), [0, 0, 1, 0, 1])"
    using assms(5,7) process_data_numeric [OF assms(7) assms(6), of 3]
    by (simp add: rolling_mean_scenario astype_int_def series_mean_def)
  have c: "load_config wd (arg_config a) =
             Inr (YMap [(YStr ''seed'', YInt 42), (YStr ''window'', YInt 3),
                        (YStr ''version'', YStr ''v1'')])"
    using assms(1,3) by (simp add: load_config_def required_keys_def)
  have d: "load_data wd (arg_input a) = Inr df"
    using assms(2,4,5) df_getitem_in_columns [OF assms(6)]
    by (simp add: load_data_def df_empty_def)
  show ?thesis using p c d assms(7) by (simp add: main_try_def)
qed

theorem scenario_close_1_2_3_2_5_witness:
  "path_exists scenario_world (arg_config scenario_args)
   \<and> path_exists scenario_world (arg_input scenario_args)
   \<and> pd_read_csv scenario_world (arg_input scenario_args) = Inr scenario_frame
   \<and> nrows scenario_frame = 5
   \<and> df_getitem scenario_frame ''close'' = Inr (Numeric [Val 1, Val 2, Val 3, Val 2, Val 5])
   \<and> np_random_seed scenario_world (YInt 42) = None
   \<and> process_data scenario_world scenario_frame (YInt 42) (YInt 3)
       = Inr (5, Val (2 / 5), [0, 0, 1, 0, 1])
   \<and> map_of (snd (hd (written (main scenario_world scenario_args)))) ''value''
       = Some (PyFloat (Val (2 / 5)))"
  using scenario_close_1_2_3_2_5 [of scenario_world scenario_args scenario_frame]
  by (simp add: scenario_world_def scenario_args_def scenario_frame_def scenario_config_def
      df_getitem_def main_def)

text \<open>
  C2. With a positive window \<open>k\<close> and a numeric \<open>close\<close> column, \<open>process_data\<close>
  returns, and every row among the first \<open>k - 1\<close> has the rolling mean NaN and the
  signal 0, whatever its \<open>close\<close> value: the comparison with NaN is false, it does not
  raise.
\<close>

theorem warmup_rows_signal_zero:
  assumes "0 < k"
    and "df_getitem df ''close'' = Inr (Numeric xs)"
    and "np_random_seed wd seed = None"
  shows "\<exists>rate sigs.
           process_data wd df seed (YInt k) = Inr (nrows df, rate, sigs)
         \<and> length sigs = length xs
         \<and> (\<forall>i<length xs. int i < k - 1 \<longrightarrow>
               rolling_mean (nat k) xs ! i = NaN \<and> \<not> f64_gt (xs ! i) NaN \<and> sigs ! i = 0)"
proof -
  let ?sigs = "astype_int (map (\<lambda>(x, y). f64_gt x y) (zip xs (rolling_mean (nat k) xs)))"
  have run: "process_data wd df seed (YInt k) = Inr (nrows df, series_mean ?sigs, ?sigs)"
    using assms by (intro process_data_numeric) simp_all
  have "rolling_mean (nat k) xs ! i = NaN \<and> \<not> f64_gt (xs ! i) NaN \<and> ?sigs ! i = 0"
    if "i < length xs" and "int i < k - 1" for i
  proof -
    have "Suc i < nat k" using that(2) by linarith
    then have nan: "rolling_mean (nat k) xs ! i = NaN"
      using that(1) by (intro rolling_mean_warmup)
    have no: "\<not> f64_gt (xs ! i) NaN" by (simp add: f64_gt_iff)
    show ?thesis using nan no that(1) by (simp add: nth_signals)
  qed
  then show ?thesis using run length_signals by blast
qed

theorem warmup_rows_signal_zero_witness:
  "(0::int) < 3
   \<and> df_getitem scenario_frame ''close'' = Inr (Numeric [Val 1, Val 2, Val 3, Val 2, Val 5])
   \<and> np_random_seed scenario_world (YInt 42) = None
   \<and> (\<exists>rate sigs.
         process_data scenario_world scenario_frame (YInt 42) (YInt 3)
           = Inr (nrows scenario_frame, rate, sigs)
       \<and> length sigs = length [Val 1, Val 2, Val 3, Val 2, Val 5]
       \<and> (\<forall>i<length [Val 1, Val 2, Val 3, Val 2, Val 5]. int i < 3 - 1 \<longrightarrow>
             rolling_mean (nat 3) [Val 1, Val 2, Val 3, Val 2, Val 5] ! i = NaN
           \<and> \<not> f64_gt ([Val 1, Val 2, Val 3, Val 2, Val 5] ! i) NaN \<and> sigs ! i = 0))"
proof -
  have k: "(0::int) < 3" by simp
  show ?thesis
    using k scenario_getitem scenario_seed [of "YInt 42"]
      warmup_rows_signal_zero [OF k scenario_getitem scenario_seed [of "YInt 42"]]
    by blast
qed

text \<open>
  C4. On a well-formed table with at least one row and a \<open>close\<close> column, with a
  positive window, whenever \<open>process_data\<close> returns a signal rate it is the sum of the
  0/1 signals of all the rows divided by the number of rows, and lies between 0 and 1;
  and it does return one when the column is numeric and the seed is accepted.
\<close>

theorem signal_rate_mean_in_unit_interval:
  assumes "wf_frame df" and "0 < nrows df"
    and "df_getitem df ''close'' = Inr c"
    and "0 < k"
  shows "(\<forall>n rate sigs.
            process_data wd df seed (YInt k) = Inr (n, rate, sigs) \<longrightarrow>
              length sigs = nrows df \<and> set sigs \<subseteq> {0, 1}
            \<and> (\<exists>r. rate = Val r \<and> r = of_int (sum_list sigs) / of_nat (nrows df)
                   \<and> 0 \<le> r \<and> r \<le> 1))
       \<and> ((\<exists>xs. c = Numeric xs) \<and> np_random_seed wd seed = None \<longrightarrow>
            (\<exists>rate sigs. process_data wd df seed (YInt k) = Inr (nrows df, rate, sigs)))"
proof (intro conjI allI impI)
  fix n rate sigs
  assume run: "process_data wd df seed (YInt k) = Inr (n, rate, sigs)"
  have "c \<noteq> Object []"
    using wf_frame_close [OF assms(1,3)] assms(2) by auto
  with process_data_Inr [OF run] assms(3) obtain xs
    where ok: "np_random_seed wd seed = None" and c: "c = Numeric xs"
    by auto
  let ?sigs = "astype_int (map (\<lambda>(x, y). f64_gt x y) (zip xs (rolling_mean (nat k) xs)))"
  have "process_data wd df seed (YInt k) = Inr (nrows df, series_mean ?sigs, ?sigs)"
    using ok assms(3,4) c by (intro process_data_numeric) simp_all
  with run have rate: "rate = series_mean ?sigs" and sigs: "sigs = ?sigs" by auto
  have len: "length sigs = nrows df"
    using wf_frame_close [OF assms(1,3)] c sigs by (simp add: length_signals)
  then show "length sigs = nrows df" .
  show bin: "set sigs \<subseteq> {0, 1}" unfolding sigs by (rule astype_int_binary)
  have "sigs \<noteq> []" using len assms(2) by auto
  from series_mean_binary [OF bin this] rate sigs len
  show "\<exists>r. rate = Val r \<and> r = of_int (sum_list sigs) / of_nat (nrows df) \<and> 0 \<le> r \<and> r \<le> 1"
    by auto
next
  assume "(\<exists>xs. c = Numeric xs) \<and> np_random_seed wd seed = None"
  then obtain xs where c: "c = Numeric xs" and ok: "np_random_seed wd seed = None" by auto
  show "\<exists>rate sigs. process_data wd df seed (YInt k) = Inr (nrows df, rate, sigs)"
    using process_data_numeric [of wd seed df xs k] ok assms(3,4) c by simp
qed

theorem signal_rate_mean_in_unit_interval_witness:
  "wf_frame scenario_frame \<and> 0 < nrows scenario_frame
   \<and> df_getitem scenario_frame ''close'' = Inr (Numeric [Val 1, Val 2, Val 3, Val 2, Val 5])
   \<and> (0::int) < 3
   \<and> process_data scenario_world scenario_frame (YInt 42) (YInt 3)
        = Inr (5, Val (2 / 5), [0, 0, 1, 0, 1])
   \<and> length [0, 0, 1, 0, 1 :: int] = nrows scenario_frame
   \<and> set [0, 0, 1, 0, 1 :: int] \<subseteq> {0, 1}
   \<and> (\<exists>r. Val (2 / 5) = Val r
          \<and> r = of_int (sum_list [0, 0, 1, 0, 1]) / of_nat (nrows scenario_frame)
          \<and> 0 \<le> r \<and> r \<le> 1)"
proof -
  have k: "(0::int) < 3" by simp
  have run: "process_data scenario_world scenario_frame (YInt 42) (YInt 3)
               = Inr (5, Val (2 / 5), [0, 0, 1, 0, 1])"
    using process_data_numeric [OF scenario_seed [of "YInt 42"] scenario_getitem, of 3]
    by (simp add: rolling_mean_scenario astype_int_def series_mean_def scenario_frame_def)
  from signal_rate_mean_in_unit_interval
         [OF scenario_wf [THEN conjunct1] scenario_wf [THEN conjunct2] scenario_getitem k,
          of scenario_world "YInt 42"]
  have "process_data scenario_world scenario_frame (YInt 42) (YInt 3)
          = Inr (5, Val (2 / 5), [0, 0, 1, 0, 1]) \<longrightarrow>
        length [0, 0, 1, 0, 1 :: int] = nrows scenario_frame
        \<and> set [0, 0, 1, 0, 1 :: int] \<subseteq> {0, 1}
        \<and> (\<exists>r. Val (2 / 5) = Val r
               \<and> r = of_int (sum_list [0, 0, 1, 0, 1]) / of_nat (nrows scenario_frame)
               \<and> 0 \<le> r \<and> r \<le> 1)"
    by blast
  with run scenario_wf scenario_getitem k show ?thesis by blast
qed

text \<open>
  C5. In every run that ends with a success record, both loaders have accepted their
  file, the table has at least one row, and the \<open>rows_processed\<close> field of the record
  written to the output path is the number of rows of the table that \<open>pd.read_csv\<close>
  returned; \<open>process_data\<close> itself always returns the row count of its table.
\<close>

theorem rows_processed_is_row_count:
  assumes "main_try wd a = Inr metrics"
  shows "(\<exists>config df.
            load_config wd (arg_config a) = Inr config
          \<and> load_data wd (arg_input a) = Inr df
          \<and> pd_read_csv wd (arg_input a) = Inr df
          \<and> 0 < nrows df
          \<and> map_of metrics ''rows_processed'' = Some (PyInt (int (nrows df)))
          \<and> map_of metrics ''status'' = Some (PyStr ''success'')
          \<and> written (main wd a) = [(arg_output a, metrics)])
       \<and> (\<forall>df' seed window n rate sigs.
            process_data wd df' seed window = Inr (n, rate, sigs) \<longrightarrow> n = nrows df')"
proof
  from main_try_Inr [OF assms] obtain config seed window version df rate sigs where
    c: "load_config wd (arg_config a) = Inr config"
    and d: "load_data wd (arg_input a) = Inr df"
    and m: "metrics = [(''version'', PyYaml version),
                       (''rows_processed'', PyInt (int (nrows df))),
                       (''metric'', PyStr ''signal_rate''),
                       (''value'', PyFloat rate),
                       (''latency_ms'', PyInt (py_int ((time_end wd - time_start wd) * 1000))),
                       (''seed'', PyYaml seed),
                       (''status'', PyStr ''success'')]"
    by blast
  have w: "written (main wd a) = [(arg_output a, metrics)]"
    using assms by (simp add: main_def)
  have f: "map_of metrics ''rows_processed'' = Some (PyInt (int (nrows df)))"
    "map_of metrics ''status'' = Some (PyStr ''success'')"
    unfolding m by simp_all
  show "\<exists>config df.
            load_config wd (arg_config a) = Inr config
          \<and> load_data wd (arg_input a) = Inr df
          \<and> pd_read_csv wd (arg_input a) = Inr df
          \<and> 0 < nrows df
          \<and> map_of metrics ''rows_processed'' = Some (PyInt (int (nrows df)))
          \<and> map_of metrics ''status'' = Some (PyStr ''success'')
          \<and> written (main wd a) = [(arg_output a, metrics)]"
    using c d load_data_Inr [OF d] f w by blast
next
  show "\<forall>df' seed window n rate sigs.
          process_data wd df' seed window = Inr (n, rate, sigs) \<longrightarrow> n = nrows df'"
    by (auto simp: process_data_def Let_def split: option.splits sum.splits)
qed

theorem rows_processed_is_row_count_witness:
  "main_try scenario_world scenario_args =
     Inr [(''version'', PyYaml (YStr ''v1'')),
          (''rows_processed'', PyInt 5),
          (''metric'', PyStr ''signal_rate''),
          (''value'', PyFloat (Val (2 / 5))),
          (''latency_ms'', PyInt 250),
          (''seed'', PyYaml (YInt 42)),
          (''status'', PyStr ''success'')]
   \<and> pd_read_csv scenario_world (arg_input scenario_args) = Inr scenario_frame
   \<and> nrows scenario_frame = 5
   \<and> written (main scenario_world scenario_args) =
        [(''metrics.json'',
          [(''version'', PyYaml (YStr ''v1'')),
           (''rows_processed'', PyInt (int (nrows scenario_frame))),
           (''metric'', PyStr ''signal_rate''),
           (''value'', PyFloat (Val (2 / 5))),
           (''latency_ms'', PyInt 250),
           (''seed'', PyYaml (YInt 42)),
           (''status'', PyStr ''success'')])]"
proof -
  from rows_processed_is_row_count [OF scenario_main_try]
  obtain df where "pd_read_csv scenario_world (arg_input scenario_args) = Inr df"
    and "written (main scenario_world scenario_args) =
           [(arg_output scenario_args,
             [(''version'', PyYaml (YStr ''v1'')),
              (''rows_processed'', PyInt 5),
              (''metric'', PyStr ''signal_rate''),
              (''value'', PyFloat (Val (2 / 5))),
              (''latency_ms'', PyInt 250),
              (''seed'', PyYaml (YInt 42)),
              (''status'', PyStr ''success'')])]"
    by blast
  then have "written (main scenario_world scenario_args) =
           [(''metrics.json'',
             [(''version'', PyYaml (YStr ''v1'')),
              (''rows_processed'', PyInt (int (nrows scenario_frame))),
              (''metric'', PyStr ''signal_rate''),
              (''value'', PyFloat (Val (2 / 5))),
              (''latency_ms'', PyInt 250),
              (''seed'', PyYaml (YInt 42)),
              (''status'', PyStr ''success'')])]"
    by (simp add: scenario_args_def scenario_frame_def)
  moreover have "pd_read_csv scenario_world (arg_input scenario_args) = Inr scenario_frame"
    by (simp add: scenario_world_def)
  moreover have "nrows scenario_frame = 5"
    by (simp add: scenario_frame_def)
  ultimately show ?thesis
    using scenario_main_try by blast
qed

text \<open>
  C10. With window 1, on a well-formed table with at least one row and a numeric
  \<open>close\<close> column, the rolling mean of every row is the \<open>close\<close> value of the row,
  every signal is 0, and the signal rate is 0.
\<close>

theorem window_one_no_signal:
  assumes "wf_frame df" and "0 < nrows df"
    and "df_getitem df ''close'' = Inr (Numeric xs)"
    and "np_random_seed wd seed = None"
  shows "rolling_mean 1 xs = xs
       \<and> (\<forall>i<length xs. \<not> f64_gt (xs ! i) (rolling_mean 1 xs ! i))
       \<and> process_data wd df seed (YInt 1) = Inr (nrows df, Val 0, replicate (nrows df) 0)"
proof -
  have len: "length xs = nrows df"
    using wf_frame_close [OF assms(1,3)] by simp
  have zero: "series_mean (replicate (nrows df) 0) = Val 0"
    using assms(2) by (simp add: series_mean_def sum_list_replicate)
  have rm: "rolling_mean (nat 1) xs = xs"
    using rolling_mean_window_1 [of xs] by simp
  have sg: "astype_int (map (\<lambda>(x, y). f64_gt x y) (zip xs (rolling_mean (nat 1) xs)))
              = replicate (nrows df) 0"
    unfolding rm by (simp add: signals_window_1 len)
  have "process_data wd df seed (YInt 1) = Inr (nrows df, Val 0, replicate (nrows df) 0)"
    using process_data_numeric [OF assms(4,3), of 1] unfolding sg zero by simp
  then show ?thesis
    using rolling_mean_window_1 [of xs] by (simp add: f64_gt_irrefl)
qed

theorem window_one_no_signal_witness:
  "wf_frame scenario_frame \<and> 0 < nrows scenario_frame
   \<and> df_getitem scenario_frame ''close'' = Inr (Numeric [Val 1, Val 2, Val 3, Val 2, Val 5])
   \<and> np_random_seed scenario_world (YInt 42) = None
   \<and> rolling_mean 1 [Val 1, Val 2, Val 3, Val 2, Val 5] = [Val 1, Val 2, Val 3, Val 2, Val 5]
   \<and> process_data scenario_world scenario_frame (YInt 42) (YInt 1)
        = Inr (5, Val 0, [0, 0, 0, 0, 0])"
  using scenario_wf scenario_getitem scenario_seed [of "YInt 42"]
    window_one_no_signal [OF scenario_wf [THEN conjunct1] scenario_wf [THEN conjunct2]
      scenario_getitem scenario_seed [of "YInt 42"]]
  by (simp add: scenario_frame_def eval_nat_numeral)

text \<open>
  C6, amended. For a configuration path that exists and parses to a mapping,
  \<open>load_config\<close> raises a \<open>ValueError\<close> exactly when one of the keys seed, window,
  version is not a key of the mapping, raises nothing else, and otherwise returns the
  mapping as parsed. For an input path that exists and parses to a table, \<open>load_data\<close>
  raises a \<open>ValueError\<close> exactly when the table has no row or no column named close,
  raises nothing else, and otherwise returns the table as parsed.
\<close>

theorem loaders_validate:
  assumes "path_exists wd p" and "yaml_safe_load wd p = Inr (YMap m)"
    and "path_exists wd q" and "pd_read_csv wd q = Inr df"
  shows "((\<exists>msg. load_config wd p = Inl (ValueError msg)) \<longleftrightarrow>
            (\<exists>key\<in>{''seed'', ''window'', ''version''}. YStr key \<notin> set (map fst m)))
       \<and> (\<forall>e. load_config wd p = Inl e \<longrightarrow> (\<exists>msg. e = ValueError msg))
       \<and> ((\<forall>key\<in>{''seed'', ''window'', ''version''}. YStr key \<in> set (map fst m)) \<longrightarrow>
            load_config wd p = Inr (YMap m))
       \<and> ((\<exists>msg. load_data wd q = Inl (ValueError msg)) \<longleftrightarrow>
            (nrows df = 0 \<or> ''close'' \<notin> set (map fst (cols df))))
       \<and> (\<forall>e. load_data wd q = Inl e \<longrightarrow> (\<exists>msg. e = ValueError msg))
       \<and> (0 < nrows df \<and> ''close'' \<in> set (map fst (cols df)) \<longrightarrow> load_data wd q = Inr df)"
proof -
  have c: "((\<exists>msg. load_config wd p = Inl (ValueError msg)) \<longleftrightarrow>
            (\<exists>key\<in>{''seed'', ''window'', ''version''}. YStr key \<notin> set (map fst m)))
       \<and> (\<forall>e. load_config wd p = Inl e \<longrightarrow> (\<exists>msg. e = ValueError msg))
       \<and> ((\<forall>key\<in>{''seed'', ''window'', ''version''}. YStr key \<in> set (map fst m)) \<longrightarrow>
            load_config wd p = Inr (YMap m))"
    unfolding load_config_map [OF assms(1,2)]
    by (simp add: required_keys_def)
  have d: "((\<exists>msg. load_data wd q = Inl (ValueError msg)) \<longleftrightarrow>
            (nrows df = 0 \<or> ''close'' \<notin> set (map fst (cols df))))
       \<and> (\<forall>e. load_data wd q = Inl e \<longrightarrow> (\<exists>msg. e = ValueError msg))
       \<and> (0 < nrows df \<and> ''close'' \<in> set (map fst (cols df)) \<longrightarrow> load_data wd q = Inr df)"
    using assms(3,4) by (auto simp: load_data_def df_empty_def)
  from c d show ?thesis by blast
qed

theorem loaders_validate_witness:
  "path_exists scenario_world ''config.yaml''
   \<and> yaml_safe_load scenario_world ''config.yaml'' =
       Inr (YMap [(YStr ''seed'', YInt 42), (YStr ''window'', YInt 3),
                  (YStr ''version'', YStr ''v1'')])
   \<and> path_exists scenario_world ''data.csv''
   \<and> pd_read_csv scenario_world ''data.csv'' = Inr scenario_frame
   \<and> load_config scenario_world ''config.yaml'' =
       Inr (YMap [(YStr ''seed'', YInt 42), (YStr ''window'', YInt 3),
                  (YStr ''version'', YStr ''v1'')])
   \<and> load_data scenario_world ''data.csv'' = Inr scenario_frame"
proof -
  note v = loaders_validate [OF scenario_paths(1) scenario_yaml scenario_paths(2) scenario_csv]
  have "load_config scenario_world ''config.yaml'' =
       Inr (YMap [(YStr ''seed'', YInt 42), (YStr ''window'', YInt 3),
                  (YStr ''version'', YStr ''v1'')])"
    using v by simp
  moreover have "load_data scenario_world ''data.csv'' = Inr scenario_frame"
    using v by (simp add: scenario_frame_def)
  ultimately show ?thesis
    using scenario_paths(1,2) scenario_yaml scenario_csv by blast
qed

text \<open>
  C6 as stated, for every document that parses, does not hold. An empty document has
  none of the keys, yet \<open>load_config\<close> raises a \<open>TypeError\<close>, not a \<open>ValueError\<close>; a
  sequence of the three names has no key either, yet \<open>load_config\<close> returns it.
\<close>

theorem loaders_validate_counterexample:
  "path_exists empty_document_world ''config.yaml''
   \<and> yaml_safe_load empty_document_world ''config.yaml'' = Inr YNull
   \<and> YStr ''seed'' \<notin> set (yaml_keys YNull)
   \<and> load_config empty_document_world ''config.yaml'' =
       Inl (TypeError ''argument of type 'NoneType' is not iterable'')
   \<and> path_exists names_list_world ''config.yaml''
   \<and> yaml_safe_load names_list_world ''config.yaml'' =
       Inr (YSeq [YStr ''seed'', YStr ''window'', YStr ''version''])
   \<and> YStr ''seed'' \<notin> set (yaml_keys (YSeq [YStr ''seed'', YStr ''window'', YStr ''version'']))
   \<and> load_config names_list_world ''config.yaml'' =
       Inr (YSeq [YStr ''seed'', YStr ''window'', YStr ''version''])"
proof -
  have e1: "path_exists empty_document_world ''config.yaml''"
    and e2: "yaml_safe_load empty_document_world ''config.yaml'' = Inr YNull"
    by (simp_all add: empty_document_world_def scenario_world_def)
  have n1: "path_exists names_list_world ''config.yaml''"
    and n2: "yaml_safe_load names_list_world ''config.yaml'' =
       Inr (YSeq [YStr ''seed'', YStr ''window'', YStr ''version''])"
    by (simp_all add: names_list_world_def scenario_world_def)
  have n3: "load_config names_list_world ''config.yaml'' =
       Inr (YSeq [YStr ''seed'', YStr ''window'', YStr ''version''])"
    using n1 n2 by (simp add: load_config_def required_keys_def)
  have k: "YStr ''seed'' \<notin> set (yaml_keys YNull)"
    "YStr ''seed'' \<notin> set (yaml_keys (YSeq [YStr ''seed'', YStr ''window'', YStr ''version'']))"
    by simp_all
  show ?thesis
    by (intro conjI e1 e2 n1 n2 n3 k load_config_empty_document [OF e1 e2])
qed

text \<open>
  C7. A loader called on a path that does not exist raises \<open>FileNotFoundError\<close>,
  whatever the parser would answer on that path. A run whose configuration path or
  input path does not exist writes and prints an error record (status error) and exits
  with code 1; when it is the configuration path, the record carries the message of the
  configuration loader.
\<close>

theorem missing_path_not_found:
  "(\<not> path_exists wd p \<longrightarrow>
      (\<forall>f. load_config (wd\<lparr>yaml_safe_load := f\<rparr>) p =
             Inl (FileNotFoundError (''Config file not found: '' @ p)))
    \<and> (\<forall>f. load_data (wd\<lparr>pd_read_csv := f\<rparr>) p =
             Inl (FileNotFoundError (''Input file not found: '' @ p))))
   \<and> (\<not> path_exists wd (arg_config a) \<longrightarrow>
        main_try wd a = Inl (FileNotFoundError (''Config file not found: '' @ arg_config a)))
   \<and> (\<not> path_exists wd (arg_config a) \<or> \<not> path_exists wd (arg_input a) \<longrightarrow>
        (\<exists>e. written (main wd a) = [(arg_output a, error_metrics e)]
           \<and> printed (main wd a) = [error_metrics e]
           \<and> map_of (error_metrics e) ''status'' = Some (PyStr ''error'')
           \<and> exit_code (main wd a) = 1))"
proof (intro conjI impI allI)
  fix f
  assume "\<not> path_exists wd p"
  then have "\<not> path_exists (wd\<lparr>yaml_safe_load := f\<rparr>) p" by simp
  then show "load_config (wd\<lparr>yaml_safe_load := f\<rparr>) p =
             Inl (FileNotFoundError (''Config file not found: '' @ p))"
    by (rule load_config_missing)
next
  fix f
  assume "\<not> path_exists wd p"
  then have "\<not> path_exists (wd\<lparr>pd_read_csv := f\<rparr>) p" by simp
  then show "load_data (wd\<lparr>pd_read_csv := f\<rparr>) p =
             Inl (FileNotFoundError (''Input file not found: '' @ p))"
    by (rule load_data_missing)
next
  assume "\<not> path_exists wd (arg_config a)"
  then show "main_try wd a = Inl (FileNotFoundError (''Config file not found: '' @ arg_config a))"
    by (intro main_try_config_failed load_config_missing)
next
  assume "\<not> path_exists wd (arg_config a) \<or> \<not> path_exists wd (arg_input a)"
  then have "\<exists>e. main_try wd a = Inl e"
  proof
    assume "\<not> path_exists wd (arg_config a)"
    then have "main_try wd a = Inl (FileNotFoundError (''Config file not found: '' @ arg_config a))"
      by (intro main_try_config_failed load_config_missing)
    then show ?thesis ..
  next
    assume "\<not> path_exists wd (arg_input a)"
    then show ?thesis by (rule main_try_missing_input)
  qed
  then obtain e where e: "main_try wd a = Inl e" ..
  have "map_of (error_metrics e) ''status'' = Some (PyStr ''error'')"
    by (simp add: error_metrics_def)
  then have r: "written (main wd a) = [(arg_output a, error_metrics e)]
           \<and> printed (main wd a) = [error_metrics e]
           \<and> map_of (error_metrics e) ''status'' = Some (PyStr ''error'')
           \<and> exit_code (main wd a) = 1"
    unfolding main_failed [OF e] by simp
  show "\<exists>e. written (main wd a) = [(arg_output a, error_metrics e)]
           \<and> printed (main wd a) = [error_metrics e]
           \<and> map_of (error_metrics e) ''status'' = Some (PyStr ''error'')
           \<and> exit_code (main wd a) = 1"
    by (rule exI [where x = e]) (rule r)
qed

theorem missing_path_not_found_witness:
  "\<not> path_exists scenario_world ''nowhere.csv''
   \<and> load_data (scenario_world\<lparr>pd_read_csv := (\<lambda>p. Inr scenario_frame)\<rparr>) ''nowhere.csv'' =
       Inl (FileNotFoundError (''Input file not found: '' @ ''nowhere.csv''))
   \<and> load_config (scenario_world\<lparr>yaml_safe_load := (\<lambda>p. Inr scenario_config)\<rparr>)
         ''nowhere.csv'' =
       Inl (FileNotFoundError (''Config file not found: '' @ ''nowhere.csv''))
   \<and> exit_code (main scenario_world (scenario_args\<lparr>arg_input := ''nowhere.csv''\<rparr>)) = 1"
proof -
  note m = missing_path_not_found
    [of scenario_world "''nowhere.csv''" "scenario_args\<lparr>arg_input := ''nowhere.csv''\<rparr>"]
  note loaders = m [THEN conjunct1, THEN mp, OF scenario_paths(3)]
  have gone: "\<not> path_exists scenario_world (arg_config (scenario_args\<lparr>arg_input := ''nowhere.csv''\<rparr>))
            \<or> \<not> path_exists scenario_world (arg_input (scenario_args\<lparr>arg_input := ''nowhere.csv''\<rparr>))"
    using scenario_paths(3) by simp
  have code: "exit_code (main scenario_world (scenario_args\<lparr>arg_input := ''nowhere.csv''\<rparr>)) = 1"
    using m [THEN conjunct2, THEN conjunct2, THEN mp, OF gone] by (elim exE conjE)
  show ?thesis
  proof (intro conjI)
    show "\<not> path_exists scenario_world ''nowhere.csv''"
      by (rule scenario_paths(3))
    show "load_data (scenario_world\<lparr>pd_read_csv := (\<lambda>p. Inr scenario_frame)\<rparr>) ''nowhere.csv'' =
       Inl (FileNotFoundError (''Input file not found: '' @ ''nowhere.csv''))"
      by (rule loaders [THEN conjunct2, THEN spec])
    show "load_config (scenario_world\<lparr>yaml_safe_load := (\<lambda>p. Inr scenario_config)\<rparr>)
         ''nowhere.csv'' =
       Inl (FileNotFoundError (''Config file not found: '' @ ''nowhere.csv''))"
      by (rule loaders [THEN conjunct1, THEN spec])
    show "exit_code (main scenario_world (scenario_args\<lparr>arg_input := ''nowhere.csv''\<rparr>)) = 1"
      by (rule code)
  qed
qed

text \<open>
  C8. Whenever the body of the \<open>try\<close> block raises an exception \<open>e\<close>, the run writes
  to the output path and prints one and the same error record, made of exactly the
  fields version (the fixed value v1), status (error) and error_message (the text of
  \<open>e\<close>), and exits with code 1; no \<open>rows_processed\<close> or \<open>value\<close> field occurs in it.
  The text of an exception is the string it was raised with (a \<open>KeyError\<close> prints its
  key in quotes). An exception raised by \<open>load_config\<close>, by the seeding, by
  \<open>load_data\<close> or by \<open>process_data\<close> is such an exception of the body, and each
  \<open>raise\<close> of the two loaders is reported with its own message.
\<close>

theorem failure_gives_error_record:
  "(main_try wd a = Inl e \<longrightarrow>
      main wd a =
        \<lparr>written = [(arg_output a,
                     [(''version'', PyStr ''v1''), (''status'', PyStr ''error''),
                      (''error_message'', PyStr (str_exn e))])],
         printed = [[(''version'', PyStr ''v1''), (''status'', PyStr ''error''),
                     (''error_message'', PyStr (str_exn e))]],
         exit_code = 1\<rparr>
      \<and> exit_code (main wd a) \<noteq> 0)
   \<and> map fst (error_metrics e) = [''version'', ''status'', ''error_message'']
   \<and> str_exn (FileNotFoundError msg) = msg
   \<and> str_exn (ValueError msg) = msg
   \<and> str_exn (TypeError msg) = msg
   \<and> str_exn (LibraryError msg) = msg
   \<and> str_exn (KeyError msg) = [CHR 0x27] @ msg @ [CHR 0x27]
   \<and> (load_config wd (arg_config a) = Inl e \<longrightarrow> main_try wd a = Inl e)
   \<and> (\<not> path_exists wd (arg_config a) \<longrightarrow>
        printed (main wd a) =
          [[(''version'', PyStr ''v1''), (''status'', PyStr ''error''),
            (''error_message'', PyStr (''Config file not found: '' @ arg_config a))]])
   \<and> (path_exists wd (arg_config a) \<and> yaml_safe_load wd (arg_config a) = Inr (YMap m)
        \<and> find (\<lambda>key. YStr key \<notin> set (map fst m)) [''seed'', ''window'', ''version'']
            = Some key \<longrightarrow>
        printed (main wd a) =
          [[(''version'', PyStr ''v1''), (''status'', PyStr ''error''),
            (''error_message'', PyStr (''Missing required config key: '' @ key))]])
   \<and> (load_config wd (arg_config a) = Inr config
        \<and> py_getitem config ''seed'' = Inr seed
        \<and> py_getitem config ''window'' = Inr window
        \<and> py_getitem config ''version'' = Inr version \<longrightarrow>
          (np_random_seed wd seed = Some e \<longrightarrow> main_try wd a = Inl e)
        \<and> (np_random_seed wd seed = None \<and> load_data wd (arg_input a) = Inl e \<longrightarrow>
              main_try wd a = Inl e)
        \<and> (np_random_seed wd seed = None \<and> load_data wd (arg_input a) = Inr df
              \<and> process_data wd df seed window = Inl e \<longrightarrow> main_try wd a = Inl e)
        \<and> (np_random_seed wd seed = None \<and> \<not> path_exists wd (arg_input a) \<longrightarrow>
              printed (main wd a) =
                [[(''version'', PyStr ''v1''), (''status'', PyStr ''error''),
                  (''error_message'', PyStr (''Input file not found: '' @ arg_input a))]])
        \<and> (np_random_seed wd seed = None \<and> path_exists wd (arg_input a)
              \<and> pd_read_csv wd (arg_input a) = Inr df
              \<and> (nrows df = 0 \<or> cols df = []) \<longrightarrow>
              printed (main wd a) =
                [[(''version'', PyStr ''v1''), (''status'', PyStr ''error''),
                  (''error_message'', PyStr ''Input CSV is empty'')]])
        \<and> (np_random_seed wd seed = None \<and> path_exists wd (arg_input a)
              \<and> pd_read_csv wd (arg_input a) = Inr df
              \<and> 0 < nrows df \<and> cols df \<noteq> []
              \<and> ''close'' \<notin> set (map fst (cols df)) \<longrightarrow>
              printed (main wd a) =
                [[(''version'', PyStr ''v1''), (''status'', PyStr ''error''),
                  (''error_message'', PyStr ''Required 'close' column missing'')]]))"
proof -
  have caught: "main_try wd a = Inl e \<longrightarrow>
      main wd a =
        \<lparr>written = [(arg_output a,
                     [(''version'', PyStr ''v1''), (''status'', PyStr ''error''),
                      (''error_message'', PyStr (str_exn e))])],
         printed = [[(''version'', PyStr ''v1''), (''status'', PyStr ''error''),
                     (''error_message'', PyStr (str_exn e))]],
         exit_code = 1\<rparr>
      \<and> exit_code (main wd a) \<noteq> 0"
  proof (intro impI conjI)
    assume e: "main_try wd a = Inl e"
    show "main wd a =
        \<lparr>written = [(arg_output a,
                     [(''version'', PyStr ''v1''), (''status'', PyStr ''error''),
                      (''error_message'', PyStr (str_exn e))])],
         printed = [[(''version'', PyStr ''v1''), (''status'', PyStr ''error''),
                     (''error_message'', PyStr (str_exn e))]],
         exit_code = 1\<rparr>"
      unfolding main_failed [OF e] error_metrics_def by (rule refl)
    show "exit_code (main wd a) \<noteq> 0"
      unfolding main_failed [OF e] by simp
  qed
  have fields: "map fst (error_metrics e) = [''version'', ''status'', ''error_message'']"
    unfolding error_metrics_def by simp
  have texts: "str_exn (FileNotFoundError msg) = msg" "str_exn (ValueError msg) = msg"
    "str_exn (TypeError msg) = msg" "str_exn (LibraryError msg) = msg"
    "str_exn (KeyError msg) = [CHR 0x27] @ msg @ [CHR 0x27]"
    by simp_all
  have config_stage: "load_config wd (arg_config a) = Inl e \<longrightarrow> main_try wd a = Inl e"
    by (intro impI main_try_config_failed)
  have config_missing: "\<not> path_exists wd (arg_config a) \<longrightarrow>
        printed (main wd a) =
          [[(''version'', PyStr ''v1''), (''status'', PyStr ''error''),
            (''error_message'', PyStr (''Config file not found: '' @ arg_config a))]]"
  proof
    assume "\<not> path_exists wd (arg_config a)"
    then have "main_try wd a = Inl (FileNotFoundError (''Config file not found: '' @ arg_config a))"
      by (intro main_try_config_failed load_config_missing)
    from main_printed_failed [OF this] show "printed (main wd a) =
          [[(''version'', PyStr ''v1''), (''status'', PyStr ''error''),
            (''error_message'', PyStr (''Config file not found: '' @ arg_config a))]]"
      by simp
  qed
  have key_missing: "path_exists wd (arg_config a) \<and> yaml_safe_load wd (arg_config a) = Inr (YMap m)
        \<and> find (\<lambda>key. YStr key \<notin> set (map fst m)) [''seed'', ''window'', ''version'']
            = Some key \<longrightarrow>
        printed (main wd a) =
          [[(''version'', PyStr ''v1''), (''status'', PyStr ''error''),
            (''error_message'', PyStr (''Missing required config key: '' @ key))]]"
  proof
    assume h: "path_exists wd (arg_config a) \<and> yaml_safe_load wd (arg_config a) = Inr (YMap m)
        \<and> find (\<lambda>key. YStr key \<notin> set (map fst m)) [''seed'', ''window'', ''version'']
            = Some key"
    have "load_config wd (arg_config a) =
            Inl (ValueError (''Missing required config key: '' @ key))"
      using h by (intro load_config_missing_key [of wd _ m]) simp_all
    then have "main_try wd a = Inl (ValueError (''Missing required config key: '' @ key))"
      by (rule main_try_config_failed)
    from main_printed_failed [OF this] show "printed (main wd a) =
          [[(''version'', PyStr ''v1''), (''status'', PyStr ''error''),
            (''error_message'', PyStr (''Missing required config key: '' @ key))]]"
      by simp
  qed
  have later: "(np_random_seed wd seed = Some e \<longrightarrow> main_try wd a = Inl e)
        \<and> (np_random_seed wd seed = None \<and> load_data wd (arg_input a) = Inl e \<longrightarrow>
              main_try wd a = Inl e)
        \<and> (np_random_seed wd seed = None \<and> load_data wd (arg_input a) = Inr df
              \<and> process_data wd df seed window = Inl e \<longrightarrow> main_try wd a = Inl e)
        \<and> (np_random_seed wd seed = None \<and> \<not> path_exists wd (arg_input a) \<longrightarrow>
              printed (main wd a) =
                [[(''version'', PyStr ''v1''), (''status'', PyStr ''error''),
                  (''error_message'', PyStr (''Input file not found: '' @ arg_input a))]])
        \<and> (np_random_seed wd seed = None \<and> path_exists wd (arg_input a)
              \<and> pd_read_csv wd (arg_input a) = Inr df
              \<and> (nrows df = 0 \<or> cols df = []) \<longrightarrow>
              printed (main wd a) =
                [[(''version'', PyStr ''v1''), (''status'', PyStr ''error''),
                  (''error_message'', PyStr ''Input CSV is empty'')]])
        \<and> (np_random_seed wd seed = None \<and> path_exists wd (arg_input a)
              \<and> pd_read_csv wd (arg_input a) = Inr df
              \<and> 0 < nrows df \<and> cols df \<noteq> []
              \<and> ''close'' \<notin> set (map fst (cols df)) \<longrightarrow>
              printed (main wd a) =
                [[(''version'', PyStr ''v1''), (''status'', PyStr ''error''),
                  (''error_message'', PyStr ''Required 'close' column missing'')]])"
    if c: "load_config wd (arg_config a) = Inr config"
      and gs: "py_getitem config ''seed'' = Inr seed"
      and gw: "py_getitem config ''window'' = Inr window"
      and gv: "py_getitem config ''version'' = Inr version"
  proof (intro conjI impI)
    assume "np_random_seed wd seed = Some e"
    then show "main_try wd a = Inl e"
      by (rule main_try_seed_failed [OF c gs gw gv])
  next
    assume "np_random_seed wd seed = None \<and> load_data wd (arg_input a) = Inl e"
    then show "main_try wd a = Inl e"
      by (intro main_try_data_failed [OF c gs gw gv]) simp_all
  next
    assume "np_random_seed wd seed = None \<and> load_data wd (arg_input a) = Inr df
              \<and> process_data wd df seed window = Inl e"
    then show "main_try wd a = Inl e"
      by (intro main_try_process_failed [OF c gs gw gv, of df]) simp_all
  next
    assume h: "np_random_seed wd seed = None \<and> \<not> path_exists wd (arg_input a)"
    then have "load_data wd (arg_input a) =
                 Inl (FileNotFoundError (''Input file not found: '' @ arg_input a))"
      by (intro load_data_missing) simp
    with h have "main_try wd a =
                 Inl (FileNotFoundError (''Input file not found: '' @ arg_input a))"
      by (intro main_try_data_failed [OF c gs gw gv]) simp_all
    from main_printed_failed [OF this] show "printed (main wd a) =
                [[(''version'', PyStr ''v1''), (''status'', PyStr ''error''),
                  (''error_message'', PyStr (''Input file not found: '' @ arg_input a))]]"
      by simp
  next
    assume h: "np_random_seed wd seed = None \<and> path_exists wd (arg_input a)
              \<and> pd_read_csv wd (arg_input a) = Inr df
              \<and> (nrows df = 0 \<or> cols df = [])"
    then have "load_data wd (arg_input a) = Inl (ValueError ''Input CSV is empty'')"
      by (intro load_data_empty [of wd _ df]) simp_all
    with h have "main_try wd a = Inl (ValueError ''Input CSV is empty'')"
      by (intro main_try_data_failed [OF c gs gw gv]) simp_all
    from main_printed_failed [OF this] show "printed (main wd a) =
                [[(''version'', PyStr ''v1''), (''status'', PyStr ''error''),
                  (''error_message'', PyStr ''Input CSV is empty'')]]"
      by simp
  next
    assume h: "np_random_seed wd seed = None \<and> path_exists wd (arg_input a)
              \<and> pd_read_csv wd (arg_input a) = Inr df
              \<and> 0 < nrows df \<and> cols df \<noteq> []
              \<and> ''close'' \<notin> set (map fst (cols df))"
    then have "load_data wd (arg_input a) =
                 Inl (ValueError ''Required 'close' column missing'')"
      by (intro load_data_no_close [of wd _ df]) simp_all
    with h have "main_try wd a = Inl (ValueError ''Required 'close' column missing'')"
      by (intro main_try_data_failed [OF c gs gw gv]) simp_all
    from main_printed_failed [OF this] show "printed (main wd a) =
                [[(''version'', PyStr ''v1''), (''status'', PyStr ''error''),
                  (''error_message'', PyStr ''Required 'close' column missing'')]]"
      by simp
  qed
  show ?thesis
  proof (intro conjI)
    show "load_config wd (arg_config a) = Inr config
        \<and> py_getitem config ''seed'' = Inr seed
        \<and> py_getitem config ''window'' = Inr window
        \<and> py_getitem config ''version'' = Inr version \<longrightarrow>
          (np_random_seed wd seed = Some e \<longrightarrow> main_try wd a = Inl e)
        \<and> (np_random_seed wd seed = None \<and> load_data wd (arg_input a) = Inl e \<longrightarrow>
              main_try wd a = Inl e)
        \<and> (np_random_seed wd seed = None \<and> load_data wd (arg_input a) = Inr df
              \<and> process_data wd df seed window = Inl e \<longrightarrow> main_try wd a = Inl e)
        \<and> (np_random_seed wd seed = None \<and> \<not> path_exists wd (arg_input a) \<longrightarrow>
              printed (main wd a) =
                [[(''version'', PyStr ''v1''), (''status'', PyStr ''error''),
                  (''error_message'', PyStr (''Input file not found: '' @ arg_input a))]])
        \<and> (np_random_seed wd seed = None \<and> path_exists wd (arg_input a)
              \<and> pd_read_csv wd (arg_input a) = Inr df
              \<and> (nrows df = 0 \<or> cols df = []) \<longrightarrow>
              printed (main wd a) =
                [[(''version'', PyStr ''v1''), (''status'', PyStr ''error''),
                  (''error_message'', PyStr ''Input CSV is empty'')]])
        \<and> (np_random_seed wd seed = None \<and> path_exists wd (arg_input a)
              \<and> pd_read_csv wd (arg_input a) = Inr df
              \<and> 0 < nrows df \<and> cols df \<noteq> []
              \<and> ''close'' \<notin> set (map fst (cols df)) \<longrightarrow>
              printed (main wd a) =
                [[(''version'', PyStr ''v1''), (''status'', PyStr ''error''),
                  (''error_message'', PyStr ''Required 'close' column missing'')]])"
    proof
      assume h: "load_config wd (arg_config a) = Inr config
        \<and> py_getitem config ''seed'' = Inr seed
        \<and> py_getitem config ''window'' = Inr window
        \<and> py_getitem config ''version'' = Inr version"
      show "(np_random_seed wd seed = Some e \<longrightarrow> main_try wd a = Inl e)
        \<and> (np_random_seed wd seed = None \<and> load_data wd (arg_input a) = Inl e \<longrightarrow>
              main_try wd a = Inl e)
        \<and> (np_random_seed wd seed = None \<and> load_data wd (arg_input a) = Inr df
              \<and> process_data wd df seed window = Inl e \<longrightarrow> main_try wd a = Inl e)
        \<and> (np_random_seed wd seed = None \<and> \<not> path_exists wd (arg_input a) \<longrightarrow>
              printed (main wd a) =
                [[(''version'', PyStr ''v1''), (''status'', PyStr ''error''),
                  (''error_message'', PyStr (''Input file not found: '' @ arg_input a))]])
        \<and> (np_random_seed wd seed = None \<and> path_exists wd (arg_input a)
              \<and> pd_read_csv wd (arg_input a) = Inr df
              \<and> (nrows df = 0 \<or> cols df = []) \<longrightarrow>
              printed (main wd a) =
                [[(''version'', PyStr ''v1''), (''status'', PyStr ''error''),
                  (''error_message'', PyStr ''Input CSV is empty'')]])
        \<and> (np_random_seed wd seed = None \<and> path_exists wd (arg_input a)
              \<and> pd_read_csv wd (arg_input a) = Inr df
              \<and> 0 < nrows df \<and> cols df \<noteq> []
              \<and> ''close'' \<notin> set (map fst (cols df)) \<longrightarrow>
              printed (main wd a) =
                [[(''version'', PyStr ''v1''), (''status'', PyStr ''error''),
                  (''error_message'', PyStr ''Required 'close' column missing'')]])"
        by (rule later [OF h [THEN conjunct1] h [THEN conjunct2, THEN conjunct1]
              h [THEN conjunct2, THEN conjunct2, THEN conjunct1]
              h [THEN conjunct2, THEN conjunct2, THEN conjunct2]])
    qed
  qed (rule caught fields texts config_stage config_missing key_missing)+
qed

theorem failure_gives_error_record_witness:
  "main_try scenario_world (scenario_args\<lparr>arg_input := ''nowhere.csv''\<rparr>) =
     Inl (FileNotFoundError ''Input file not found: nowhere.csv'')
   \<and> main scenario_world (scenario_args\<lparr>arg_input := ''nowhere.csv''\<rparr>) =
        \<lparr>written = [(''metrics.json'',
                     [(''version'', PyStr ''v1''), (''status'', PyStr ''error''),
                      (''error_message'', PyStr ''Input file not found: nowhere.csv'')])],
         printed = [[(''version'', PyStr ''v1''), (''status'', PyStr ''error''),
                     (''error_message'', PyStr ''Input file not found: nowhere.csv'')]],
         exit_code = 1\<rparr>"
proof -
  note t = failure_gives_error_record
    [of scenario_world "scenario_args\<lparr>arg_input := ''nowhere.csv''\<rparr>"
        "FileNotFoundError ''Input file not found: nowhere.csv''"
        "''Input file not found: nowhere.csv''"]
  have m: "main scenario_world (scenario_args\<lparr>arg_input := ''nowhere.csv''\<rparr>) =
        \<lparr>written = [(arg_output (scenario_args\<lparr>arg_input := ''nowhere.csv''\<rparr>),
                     [(''version'', PyStr ''v1''), (''status'', PyStr ''error''),
                      (''error_message'',
                       PyStr (str_exn (FileNotFoundError ''Input file not found: nowhere.csv'')))])],
         printed = [[(''version'', PyStr ''v1''), (''status'', PyStr ''error''),
                     (''error_message'',
                      PyStr (str_exn (FileNotFoundError ''Input file not found: nowhere.csv'')))]],
         exit_code = 1\<rparr>"
    by (rule t [THEN conjunct1, THEN mp, OF scenario_missing_input, THEN conjunct1])
  have s: "str_exn (FileNotFoundError ''Input file not found: nowhere.csv'')
             = ''Input file not found: nowhere.csv''"
    by (rule t [THEN conjunct2, THEN conjunct2, THEN conjunct1])
  have o: "arg_output (scenario_args\<lparr>arg_input := ''nowhere.csv''\<rparr>) = ''metrics.json''"
    by (simp add: scenario_args_def)
  show ?thesis
    using scenario_missing_input m unfolding s o by (intro conjI)
qed

end
